theory Spec2Isabelle
  imports Complex_Main
begin

section \<open>Multi-head attention of src/main.py\<close>

text \<open>
  The module \<^verbatim>\<open>src/main.py\<close> builds a Transformer from tensor primitives of the array
  runtime (\<^verbatim>\<open>reshape\<close>, \<^verbatim>\<open>nn.Linear\<close>, \<^verbatim>\<open>einsum\<close>, \<^verbatim>\<open>masked_fill\<close>, \<^verbatim>\<open>softmax\<close>,
  \<^verbatim>\<open>tril\<close>, \<^verbatim>\<open>expand\<close>). A tensor is modelled as the runtime stores a contiguous one:
  a shape and the elements in row-major order. Floating-point numbers are idealised as
  real numbers, so rounding, overflow and underflow are outside the model. Every
  exception of the Python code is a value \<open>Inl e\<close>.
\<close>

subsection \<open>Errors\<close>

datatype error =
    AssertionError string
  | ZeroDivisionError
  | IndexError
  | ValueError
  | RuntimeError

definition and_then :: "error + 'a \<Rightarrow> ('a \<Rightarrow> error + 'b) \<Rightarrow> error + 'b" where
  "and_then m f = (case m of Inl e \<Rightarrow> Inl e | Inr x \<Rightarrow> f x)"

subsection \<open>Tensors: shape and row-major elements\<close>

datatype 'a tensor = Tensor (shape: "nat list") (elems: "'a list")

definition wf_tensor :: "'a tensor \<Rightarrow> bool" where
  "wf_tensor t \<longleftrightarrow> length (elems t) = prod_list (shape t)"

text \<open>The position of the element with index \<open>idx\<close> in a tensor of shape \<open>shp\<close>.\<close>

fun offset :: "nat list \<Rightarrow> nat list \<Rightarrow> nat" where
  "offset (s # ss) (i # is) = i * prod_list ss + offset ss is"
| "offset _ _ = 0"

text \<open>The index of the element at position \<open>p\<close>.\<close>

fun unravel :: "nat list \<Rightarrow> nat \<Rightarrow> nat list" where
  "unravel [] p = []"
| "unravel (s # ss) p = (p div prod_list ss) mod s # unravel ss p"

definition valid_index :: "nat list \<Rightarrow> nat list \<Rightarrow> bool" where
  "valid_index shp idx \<longleftrightarrow> list_all2 (<) idx shp"

definition elem_at :: "'a tensor \<Rightarrow> nat list \<Rightarrow> 'a" where
  "elem_at t idx = elems t ! offset (shape t) idx"

text \<open>The tensor of shape \<open>shp\<close> whose element at index \<open>idx\<close> is \<open>f idx\<close>.\<close>

definition tabulate :: "nat list \<Rightarrow> (nat list \<Rightarrow> 'a) \<Rightarrow> 'a tensor" where
  "tabulate shp f = Tensor shp (map (\<lambda>p. f (unravel shp p)) [0..<prod_list shp])"

subsection \<open>Primitives of the array runtime\<close>

text \<open>
  Broadcasting: two sizes are compatible when they are equal or one of them is 1; shapes
  are aligned at their last dimension. \<open>elem_bc t idx\<close> reads \<open>t\<close> at the index \<open>idx\<close> of
  the broadcast shape: a dimension of size 1 is read at 0.
\<close>

definition bdim :: "nat \<Rightarrow> nat \<Rightarrow> nat option" where
  "bdim a b = (if a = b \<or> b = 1 then Some a else if a = 1 then Some b else None)"

definition broadcast_shapes :: "nat list \<Rightarrow> nat list \<Rightarrow> nat list option" where
  "broadcast_shapes s t =
     (let r = max (length s) (length t)
      in those (map2 bdim (replicate (r - length s) 1 @ s) (replicate (r - length t) 1 @ t)))"

text \<open>A shape \<open>t\<close> that broadcasts to the shape \<open>s\<close> without changing \<open>s\<close>.\<close>

definition broadcastable_to :: "nat list \<Rightarrow> nat list \<Rightarrow> bool" where
  "broadcastable_to t s \<longleftrightarrow>
     length t \<le> length s \<and>
     list_all2 (\<lambda>a b. a = b \<or> a = 1) t (drop (length s - length t) s)"

definition bidx :: "nat list \<Rightarrow> nat list \<Rightarrow> nat list" where
  "bidx shp idx =
     map2 (\<lambda>s i. if s = 1 then 0 else i) shp (drop (length idx - length shp) idx)"

definition elem_bc :: "'a tensor \<Rightarrow> nat list \<Rightarrow> 'a" where
  "elem_bc t idx = elem_at t (bidx (shape t) idx)"

text \<open>
  \<^verbatim>\<open>t.reshape(*shp)\<close> keeps the elements in order. One size may be -1 and is then
  inferred from the number of elements; the runtime refuses any other negative size, a
  second -1, an inference over an empty product, and a shape with another number of
  elements than the tensor has.
\<close>

definition reshape :: "'a tensor \<Rightarrow> int list \<Rightarrow> error + 'a tensor" where
  "reshape t shp =
     (let numel = prod_list (shape t);
          rest = prod_list (map nat (filter (\<lambda>d. d \<noteq> - 1) shp))
      in if \<exists>d\<in>set shp. d < - 1 then Inl RuntimeError
         else if 1 < length (filter (\<lambda>d. d = - 1) shp) then Inl RuntimeError
         else if - 1 \<in> set shp then
           (if rest = 0 \<or> numel mod rest \<noteq> 0 then Inl RuntimeError
            else Inr (Tensor (map (\<lambda>d. if d = - 1 then numel div rest else nat d) shp) (elems t)))
         else if rest \<noteq> numel then Inl RuntimeError
         else Inr (Tensor (map nat shp) (elems t)))"

text \<open>
  \<^verbatim>\<open>einsum("nqhd,nkhd->nhqk", [a, b])\<close>: both operands have four dimensions, the sizes
  under a shared letter broadcast, and \<open>d\<close> is summed.
\<close>

definition einsum_nqhd_nkhd_nhqk :: "real tensor \<Rightarrow> real tensor \<Rightarrow> error + real tensor" where
  "einsum_nqhd_nkhd_nhqk a b =
     (case (shape a, shape b) of
        ([n1, q, h1, d1], [n2, k, h2, d2]) \<Rightarrow>
          (case (bdim n1 n2, bdim h1 h2, bdim d1 d2) of
             (Some n, Some h, Some d) \<Rightarrow>
               Inr (tabulate [n, h, q, k] (\<lambda>idx.
                 \<Sum>c\<leftarrow>[0..<d]. elem_bc a [idx ! 0, idx ! 2, idx ! 1, c] *
                                elem_bc b [idx ! 0, idx ! 3, idx ! 1, c]))
           | _ \<Rightarrow> Inl RuntimeError)
      | _ \<Rightarrow> Inl RuntimeError)"

text \<open>\<^verbatim>\<open>einsum("nhql,nlhd->nqhd", [a, b])\<close>: \<open>l\<close> is summed.\<close>

definition einsum_nhql_nlhd_nqhd :: "real tensor \<Rightarrow> real tensor \<Rightarrow> error + real tensor" where
  "einsum_nhql_nlhd_nqhd a b =
     (case (shape a, shape b) of
        ([n1, h1, q, l1], [n2, l2, h2, d]) \<Rightarrow>
          (case (bdim n1 n2, bdim h1 h2, bdim l1 l2) of
             (Some n, Some h, Some l) \<Rightarrow>
               Inr (tabulate [n, q, h, d] (\<lambda>idx.
                 \<Sum>c\<leftarrow>[0..<l]. elem_bc a [idx ! 0, idx ! 2, idx ! 1, c] *
                                elem_bc b [idx ! 0, c, idx ! 2, idx ! 3]))
           | _ \<Rightarrow> Inl RuntimeError)
      | _ \<Rightarrow> Inl RuntimeError)"

text \<open>\<^verbatim>\<open>mask == c\<close>, elementwise.\<close>

definition eq_scalar :: "real tensor \<Rightarrow> real \<Rightarrow> bool tensor" where
  "eq_scalar m c = Tensor (shape m) (map (\<lambda>x. x = c) (elems m))"

text \<open>
  \<^verbatim>\<open>x.masked_fill(mask, v)\<close>: the tensor and the mask are broadcast to their common
  shape; the result holds \<open>v\<close> where the mask is true and the element of \<open>x\<close> elsewhere.
\<close>

definition masked_fill :: "real tensor \<Rightarrow> bool tensor \<Rightarrow> real \<Rightarrow> error + real tensor" where
  "masked_fill x mask' v =
     (case broadcast_shapes (shape x) (shape mask') of
        None \<Rightarrow> Inl RuntimeError
      | Some shp \<Rightarrow> Inr (tabulate shp (\<lambda>idx. if elem_bc mask' idx then v else elem_bc x idx)))"

text \<open>\<^verbatim>\<open>x / c\<close> for a scalar \<open>c\<close>.\<close>

definition div_scalar :: "real tensor \<Rightarrow> real \<Rightarrow> real tensor" where
  "div_scalar x c = Tensor (shape x) (map (\<lambda>v. v / c) (elems x))"

text \<open>
  \<^verbatim>\<open>torch.softmax(x, dim)\<close>: each element's exponential over the sum of the exponentials
  along dimension \<open>dim\<close>.
\<close>

definition softmax :: "real tensor \<Rightarrow> nat \<Rightarrow> error + real tensor" where
  "softmax x dim' =
     (if length (shape x) \<le> dim' then Inl IndexError
      else Inr (tabulate (shape x) (\<lambda>idx.
        exp (elem_at x idx) / (\<Sum>j\<leftarrow>[0..<shape x ! dim']. exp (elem_at x (idx[dim' := j]))))))"

text \<open>\<^verbatim>\<open>torch.ones(shp)\<close>, \<^verbatim>\<open>torch.tril(x)\<close> and \<^verbatim>\<open>x.expand(*shp)\<close>.\<close>

definition ones :: "nat list \<Rightarrow> real tensor" where
  "ones shp = tabulate shp (\<lambda>idx. 1)"

definition tril :: "real tensor \<Rightarrow> error + real tensor" where
  "tril x =
     (if length (shape x) < 2 then Inl RuntimeError
      else Inr (tabulate (shape x) (\<lambda>idx.
        if idx ! (length idx - 1) \<le> idx ! (length idx - 2) then elem_at x idx else 0)))"

definition expand :: "'a tensor \<Rightarrow> nat list \<Rightarrow> error + 'a tensor" where
  "expand x shp =
     (if \<not> broadcastable_to (shape x) shp then Inl RuntimeError
      else Inr (tabulate shp (elem_bc x)))"

subsection \<open>SelfAttention.__init__\<close>

text \<open>
  An \<^verbatim>\<open>nn.Linear\<close> layer: \<open>weight\<close> has shape \<open>[out_features, in_features]\<close>, the bias
  (when present) shape \<open>[out_features]\<close>. The learned values are supplied from outside.
\<close>

record linear =
  in_features :: nat
  out_features :: nat
  weight :: "real tensor"
  bias :: "real tensor option"

text \<open>The learned parameters of one attention module, as the parameter provider gives them.\<close>

record params =
  W_values :: "real list"
  W_keys :: "real list"
  W_queries :: "real list"
  W_fc_out :: "real list"
  b_fc_out :: "real list"

record SelfAttention =
  embed_size :: int
  heads :: int
  head_dim :: int
  values_l :: linear
  keys_l :: linear
  queries_l :: linear
  fc_out :: linear

text \<open>
  \<^verbatim>\<open>nn.Linear(i, o, bias)\<close>: the runtime refuses a negative size when it allocates the
  weight.
\<close>

definition Linear_init :: "int \<Rightarrow> int \<Rightarrow> real list \<Rightarrow> real list option \<Rightarrow> error + linear" where
  "Linear_init i o' w b =
     (if i < 0 \<or> o' < 0 then Inl RuntimeError
      else Inr \<lparr>in_features = nat i, out_features = nat o',
                weight = Tensor [nat o', nat i] w,
                bias = map_option (Tensor [nat o']) b\<rparr>)"

definition SelfAttention_init :: "int \<Rightarrow> int \<Rightarrow> params \<Rightarrow> error + SelfAttention" where
  "SelfAttention_init embed_size' heads' ps =
     (if heads' = 0 then Inl ZeroDivisionError
      else
        let head_dim' = embed_size' div heads' in
        if \<not> (head_dim' * heads' = embed_size')
        then Inl (AssertionError ''Embed size needs to be div by heads'')
        else
          and_then (Linear_init head_dim' head_dim' (W_values ps) None) (\<lambda>v.
          and_then (Linear_init head_dim' head_dim' (W_keys ps) None) (\<lambda>k.
          and_then (Linear_init head_dim' head_dim' (W_queries ps) None) (\<lambda>q.
          and_then (Linear_init (heads' * head_dim') embed_size' (W_fc_out ps) (Some (b_fc_out ps))) (\<lambda>f.
            Inr \<lparr>embed_size = embed_size', heads = heads', head_dim = head_dim',
                 values_l = v, keys_l = k, queries_l = q, fc_out = f\<rparr>)))))"

text \<open>
  \<^verbatim>\<open>nn.Linear.forward\<close>: the layer acts on the last dimension, which must have
  \<open>in_features\<close> elements.
\<close>

definition Linear_forward :: "linear \<Rightarrow> real tensor \<Rightarrow> error + real tensor" where
  "Linear_forward l x =
     (if shape x = [] \<or> last (shape x) \<noteq> in_features l then Inl RuntimeError
      else Inr (tabulate (butlast (shape x) @ [out_features l]) (\<lambda>idx.
        (\<Sum>i\<leftarrow>[0..<in_features l].
            elem_at x (butlast idx @ [i]) * elem_at (weight l) [last idx, i]) +
        (case bias l of None \<Rightarrow> 0 | Some b \<Rightarrow> elem_at b [last idx]))))"

subsection \<open>SelfAttention.forward\<close>

text \<open>
  Lines 27 to 40: the lengths are read from the shapes, the three inputs are split into
  heads and passed through their linear layers. The result keeps the four tensors the
  source has in scope afterwards: \<open>values\<close> and \<open>keys\<close> (projected), \<open>queries\<close> (the
  reshaped query, not projected) and \<open>query\<close> (the projected query).
\<close>

definition split_and_project ::
  "SelfAttention \<Rightarrow> real tensor \<Rightarrow> real tensor \<Rightarrow> real tensor \<Rightarrow>
   error + (real tensor \<times> real tensor \<times> real tensor \<times> real tensor)" where
  "split_and_project self values' keys' query' =
     (if length (shape query') < 2 \<or> length (shape values') < 2 \<or> length (shape keys') < 2
      then Inl IndexError
      else
        let N = int (shape query' ! 0);
            value_len = int (shape values' ! 1);
            key_len = int (shape keys' ! 1);
            query_len = int (shape query' ! 1)
        in
          and_then (reshape values' [N, value_len, heads self, head_dim self]) (\<lambda>values.
          and_then (reshape keys' [N, key_len, heads self, head_dim self]) (\<lambda>keys.
          and_then (reshape query' [N, query_len, heads self, head_dim self]) (\<lambda>queries.
          and_then (Linear_forward (values_l self) values) (\<lambda>values.
          and_then (Linear_forward (keys_l self) keys) (\<lambda>keys.
          and_then (Linear_forward (queries_l self) queries) (\<lambda>query.
            Inr (values, keys, queries, query))))))))"

text \<open>Line 44: the scores are computed from \<open>queries\<close> and \<open>keys\<close>.\<close>

definition energy_of ::
  "SelfAttention \<Rightarrow> real tensor \<Rightarrow> real tensor \<Rightarrow> real tensor \<Rightarrow> error + real tensor" where
  "energy_of self values' keys' query' =
     and_then (split_and_project self values' keys' query') (\<lambda>(values, keys, queries, query).
       einsum_nqhd_nkhd_nhqk queries keys)"

text \<open>Lines 50 and 51.\<close>

definition apply_mask :: "real tensor \<Rightarrow> real tensor option \<Rightarrow> error + real tensor" where
  "apply_mask energy mask' =
     (case mask' of
        None \<Rightarrow> Inr energy
      | Some m \<Rightarrow> masked_fill energy (eq_scalar m 0) (- 100000000000000000000))"

text \<open>Line 54.\<close>

definition attention_of :: "SelfAttention \<Rightarrow> real tensor \<Rightarrow> error + real tensor" where
  "attention_of self energy =
     softmax (div_scalar energy (sqrt (real_of_int (embed_size self)))) 3"

text \<open>Lines 57 to 59: the weighted sum of the values, before the output layer.\<close>

definition heads_out ::
  "SelfAttention \<Rightarrow> real tensor \<Rightarrow> real tensor \<Rightarrow> real tensor \<Rightarrow> real tensor option \<Rightarrow>
   error + real tensor" where
  "heads_out self values' keys' query' mask' =
     and_then (split_and_project self values' keys' query') (\<lambda>(values, keys, queries, query).
     and_then (einsum_nqhd_nkhd_nhqk queries keys) (\<lambda>energy.
     and_then (apply_mask energy mask') (\<lambda>energy.
     and_then (attention_of self energy) (\<lambda>attention.
     and_then (einsum_nhql_nlhd_nqhd attention values) (\<lambda>out.
       reshape out [int (shape query' ! 0), int (shape query' ! 1),
                    heads self * head_dim self])))))"

definition forward ::
  "SelfAttention \<Rightarrow> real tensor \<Rightarrow> real tensor \<Rightarrow> real tensor \<Rightarrow> real tensor option \<Rightarrow>
   error + real tensor" where
  "forward self values' keys' query' mask' =
     and_then (heads_out self values' keys' query' mask') (Linear_forward (fc_out self))"

text \<open>
  The scores as steps 2 and 3 of section 4.1 of the specification word them: the
  contraction of the projected query with the projected key. This definition follows the
  specification, not the source; it is compared with \<open>energy_of\<close>.
\<close>

definition energy_spec ::
  "SelfAttention \<Rightarrow> real tensor \<Rightarrow> real tensor \<Rightarrow> real tensor \<Rightarrow> error + real tensor" where
  "energy_spec self values' keys' query' =
     and_then (split_and_project self values' keys' query') (\<lambda>(values, keys, queries, query).
       einsum_nqhd_nkhd_nhqk query keys)"

subsection \<open>Transformer.make_trg_mask\<close>

definition make_trg_mask :: "int tensor \<Rightarrow> error + real tensor" where
  "make_trg_mask trg =
     (case shape trg of
        [N, trg_len] \<Rightarrow>
          and_then (tril (ones [trg_len, trg_len])) (\<lambda>m. expand m [N, 1, trg_len, trg_len])
      | _ \<Rightarrow> Inl ValueError)"

subsection \<open>The constructors above SelfAttention\<close>







text \<open>
  \<^verbatim>\<open>[f(i) for i in range(n)]\<close>: the elements are built in order and the first exception
  ends the construction.
\<close>

fun comprehension :: "(nat \<Rightarrow> error + 'a) \<Rightarrow> nat list \<Rightarrow> error + 'a list" where
  "comprehension f [] = Inr []"
| "comprehension f (i # rest) =
     and_then (f i) (\<lambda>x. and_then (comprehension f rest) (\<lambda>xs. Inr (x # xs)))"














subsection \<open>A concrete module\<close>

text \<open>
  The module that \<^verbatim>\<open>SelfAttention(4, 2)\<close> constructs when every layer is given the
  identity matrix as weight and \<open>fc_out\<close> the zero bias.
\<close>

definition identity_params :: params where
  "identity_params =
     \<lparr>W_values = [1, 0, 0, 1], W_keys = [1, 0, 0, 1], W_queries = [1, 0, 0, 1],
      W_fc_out = [1, 0, 0, 0, 0, 1, 0, 0, 0, 0, 1, 0, 0, 0, 0, 1],
      b_fc_out = [0, 0, 0, 0]\<rparr>"

definition identity_module :: SelfAttention where
  "identity_module =
     \<lparr>embed_size = 4, heads = 2, head_dim = 2,
      values_l = \<lparr>in_features = 2, out_features = 2,
                  weight = Tensor [2, 2] [1, 0, 0, 1], bias = None\<rparr>,
      keys_l = \<lparr>in_features = 2, out_features = 2,
                weight = Tensor [2, 2] [1, 0, 0, 1], bias = None\<rparr>,
      queries_l = \<lparr>in_features = 2, out_features = 2,
                   weight = Tensor [2, 2] [1, 0, 0, 1], bias = None\<rparr>,
      fc_out = \<lparr>in_features = 4, out_features = 4,
                weight = Tensor [4, 4] [1, 0, 0, 0, 0, 1, 0, 0, 0, 0, 1, 0, 0, 0, 0, 1],
                bias = Some (Tensor [4] [0, 0, 0, 0])\<rparr>\<rparr>"

section \<open>Indexing\<close>

lemma and_then_Inr [simp]: "and_then (Inr x) f = f x"
  by (simp add: and_then_def)

lemma and_then_Inl [simp]: "and_then (Inl e) f = Inl e"
  by (simp add: and_then_def)

lemma and_then_assoc: "and_then (and_then m f) g = and_then m (\<lambda>x. and_then (f x) g)"
  by (cases m) simp_all

lemma and_then_if:
  "and_then (if c then a else b) g = (if c then and_then a g else and_then b g)"
  by simp

lemma offset_less:
  "list_all2 (<) idx shp \<Longrightarrow> offset shp idx < prod_list shp"
proof (induction idx shp rule: list_all2_induct)
  case Nil
  then show ?case by simp
next
  case (Cons i idx s shp)
  have "i * prod_list shp + offset shp idx < i * prod_list shp + prod_list shp"
    using Cons.IH by simp
  also have "\<dots> = Suc i * prod_list shp" by simp
  also have "\<dots> \<le> s * prod_list shp"
    using Cons.hyps(1) by (intro mult_le_mono1) simp
  finally show ?case by simp
qed

lemma unravel_shift: "unravel shp (k * prod_list shp + p) = unravel shp p"
proof (induction shp arbitrary: k)
  case Nil
  then show ?case by simp
next
  case (Cons s shp)
  have a: "(k * (s * prod_list shp) + p) div prod_list shp mod s = p div prod_list shp mod s"
  proof (cases "prod_list shp = 0")
    case True
    then show ?thesis by simp
  next
    case False
    have "(k * (s * prod_list shp) + p) div prod_list shp = k * s + p div prod_list shp"
      using False by (simp add: mult.assoc [symmetric])
    then show ?thesis by simp
  qed
  have "unravel shp (k * (s * prod_list shp) + p) = unravel shp ((k * s) * prod_list shp + p)"
    by (simp add: mult.assoc)
  also have "\<dots> = unravel shp p" by (rule Cons.IH)
  finally show ?case using a by simp
qed

lemma unravel_offset:
  "list_all2 (<) idx shp \<Longrightarrow> unravel shp (offset shp idx) = idx"
proof (induction idx shp rule: list_all2_induct)
  case Nil
  then show ?case by simp
next
  case (Cons i idx s shp)
  have lt: "offset shp idx < prod_list shp"
    using Cons.hyps(2) by (rule offset_less)
  have "(i * prod_list shp + offset shp idx) div prod_list shp = i"
    using lt by simp
  then have "(i * prod_list shp + offset shp idx) div prod_list shp mod s = i"
    using Cons.hyps(1) by simp
  moreover have "unravel shp (i * prod_list shp + offset shp idx) = idx"
    using Cons.IH by (simp add: unravel_shift)
  ultimately show ?case by simp
qed

lemma shape_tabulate [simp]: "shape (tabulate shp f) = shp"
  by (simp add: tabulate_def)

lemma wf_tabulate [simp]: "wf_tensor (tabulate shp f)"
  by (simp add: tabulate_def wf_tensor_def)

lemma elem_at_tabulate:
  "valid_index shp idx \<Longrightarrow> elem_at (tabulate shp f) idx = f idx"
  by (simp add: elem_at_def tabulate_def valid_index_def offset_less unravel_offset)

lemma valid_index4 [simp]:
  "valid_index [a, b, c, d] [i, j, k, l] \<longleftrightarrow> i < a \<and> j < b \<and> k < c \<and> l < d"
  by (simp add: valid_index_def)

lemma valid_index2 [simp]:
  "valid_index [a, b] [i, j] \<longleftrightarrow> i < a \<and> j < b"
  by (simp add: valid_index_def)



lemma those_map2_same:
  "length xs = length ys \<Longrightarrow> (\<And>i. i < length xs \<Longrightarrow> f (xs ! i) (ys ! i) = Some (xs ! i)) \<Longrightarrow>
   those (map2 f xs ys) = Some xs"
proof (induction xs ys rule: list_induct2)
  case Nil
  then show ?case by simp
next
  case (Cons x xs y ys)
  have h: "f x y = Some x" using Cons.prems [of 0] by simp
  have t: "those (map2 f xs ys) = Some xs"
  proof (rule Cons.IH)
    fix i assume "i < length xs"
    then show "f (xs ! i) (ys ! i) = Some (xs ! i)" using Cons.prems [of "Suc i"] by simp
  qed
  show ?case using h t by simp
qed

lemma broadcast_shapes_to:
  assumes "broadcastable_to t s"
  shows "broadcast_shapes s t = Some s"
proof -
  have len: "length t \<le> length s"
    and all: "list_all2 (\<lambda>a b. a = b \<or> a = 1) t (drop (length s - length t) s)"
    using assms by (simp_all add: broadcastable_to_def)
  let ?k = "length s - length t"
  let ?t' = "replicate ?k 1 @ t"
  have l: "length s = length ?t'" using len by simp
  have "those (map2 bdim s ?t') = Some s"
  proof (rule those_map2_same [OF l])
    fix i assume i: "i < length s"
    show "bdim (s ! i) (?t' ! i) = Some (s ! i)"
    proof (cases "i < ?k")
      case True
      then show ?thesis by (simp add: nth_append bdim_def)
    next
      case False
      then have j: "i - ?k < length t" using i len by simp
      have "t ! (i - ?k) = drop ?k s ! (i - ?k) \<or> t ! (i - ?k) = 1"
        using list_all2_nthD [OF all j] .
      moreover have "drop ?k s ! (i - ?k) = s ! i" using False i by simp
      ultimately show ?thesis using False by (auto simp: nth_append bdim_def)
    qed
  qed
  then show ?thesis using len by (simp add: broadcast_shapes_def max_def)
qed



lemma shape_div_scalar [simp]: "shape (div_scalar t c) = shape t"
  by (simp add: div_scalar_def)

lemma shape_eq_scalar [simp]: "shape (eq_scalar t c) = shape t"
  by (simp add: eq_scalar_def)

lemma elem_at_div_scalar:
  "wf_tensor t \<Longrightarrow> valid_index (shape t) idx \<Longrightarrow>
   elem_at (div_scalar t c) idx = elem_at t idx / c"
  using offset_less [of idx "shape t"]
  by (simp add: elem_at_def div_scalar_def wf_tensor_def valid_index_def)


lemma sum_list_upt: "(\<Sum>j\<leftarrow>[0..<n]. f j) = (\<Sum>j<n. f j)"
  by (simp add: interv_sum_list_conv_sum_set_nat atLeast0LessThan)

section \<open>Construction\<close>

lemma init_identity_module: "SelfAttention_init 4 2 identity_params = Inr identity_module"
  by (simp add: SelfAttention_init_def Linear_init_def identity_params_def identity_module_def)





lemma comprehension_first_fails:
  "f i = Inl e \<Longrightarrow> comprehension f (i # rest) = Inl e"
  by simp

lemma Linear_init_not_assertion: "Linear_init i o' w b \<noteq> Inl (AssertionError msg)"
  by (simp add: Linear_init_def)















section \<open>The target mask\<close>

lemma shape_ones [simp]: "shape (ones shp) = shp"
  by (simp add: ones_def)

lemma tril_ones:
  "tril (ones [L, L]) = Inr (tabulate [L, L] (\<lambda>idx.
     if idx ! (length idx - 1) \<le> idx ! (length idx - 2) then elem_at (ones [L, L]) idx else 0))"
  by (simp add: tril_def)

lemma make_trg_mask_value:
  assumes "shape trg = [N, L]"
  shows "make_trg_mask trg =
    Inr (tabulate [N, 1, L, L] (elem_bc (tabulate [L, L]
      (\<lambda>idx. if idx ! (length idx - 1) \<le> idx ! (length idx - 2)
        then elem_at (ones [L, L]) idx else 0))))"
  using assms by (simp add: make_trg_mask_def tril_ones expand_def broadcastable_to_def)

text \<open>
  C7. For target tokens of shape \<open>(N, L)\<close>, \<open>make_trg_mask\<close> returns a mask of shape
  \<open>(N, 1, L, L)\<close> whose entry \<open>(q, k)\<close> is 1 when \<open>k \<le> q\<close> and 0 otherwise, in every batch.
  The mask is the same for any two token tensors of the same shape: the token values,
  padding included, play no part.
\<close>

theorem make_trg_mask_lower_triangular:
  "(shape trg = [N, L] \<longrightarrow>
      (\<exists>m. make_trg_mask trg = Inr m \<and> shape m = [N, 1, L, L] \<and>
         (\<forall>n<N. \<forall>q<L. \<forall>k<L. elem_at m [n, 0, q, k] = (if k \<le> q then 1 else 0)))) \<and>
   (shape trg' = shape trg \<longrightarrow> make_trg_mask trg' = make_trg_mask trg)"
proof (intro conjI impI)
  assume shp: "shape trg = [N, L]"
  let ?tri = "tabulate [L, L] (\<lambda>idx. if idx ! (length idx - 1) \<le> idx ! (length idx - 2)
        then elem_at (ones [L, L]) idx else 0)"
  let ?m = "tabulate [N, 1, L, L] (elem_bc ?tri)"
  have val: "make_trg_mask trg = Inr ?m" using shp by (rule make_trg_mask_value)
  have ent: "elem_at ?m [n, 0, q, k] = (if k \<le> q then 1 else 0)"
    if "n < N" "q < L" "k < L" for n q k
  proof -
    have "elem_at ?m [n, 0, q, k] = elem_bc ?tri [n, 0, q, k]"
      using that by (simp add: elem_at_tabulate)
    also have "\<dots> = elem_at ?tri [q, k]"
      using that by (auto simp: elem_bc_def bidx_def)
    also have "\<dots> = (if k \<le> q then elem_at (ones [L, L]) [q, k] else 0)"
      using that by (simp add: elem_at_tabulate)
    also have "\<dots> = (if k \<le> q then 1 else 0)"
      using that by (simp add: ones_def elem_at_tabulate)
    finally show ?thesis .
  qed
  show "\<exists>m. make_trg_mask trg = Inr m \<and> shape m = [N, 1, L, L] \<and>
         (\<forall>n<N. \<forall>q<L. \<forall>k<L. elem_at m [n, 0, q, k] = (if k \<le> q then 1 else 0))"
    using val ent by simp
next
  assume "shape trg' = shape trg"
  then show "make_trg_mask trg' = make_trg_mask trg"
    by (simp add: make_trg_mask_def)
qed

theorem make_trg_mask_lower_triangular_witness:
  "shape (Tensor [2, 3] [1, 7, 4, 1, 5, 0 :: int]) = [2, 3] \<and>
   (\<exists>m. make_trg_mask (Tensor [2, 3] [1, 7, 4, 1, 5, 0]) = Inr m \<and> shape m = [2, 1, 3, 3] \<and>
        elem_at m [1, 0, 1, 2] = 0 \<and> elem_at m [1, 0, 2, 1] = 1 \<and> elem_at m [0, 0, 2, 2] = 1) \<and>
   make_trg_mask (Tensor [2, 3] [0, 0, 0, 0, 0, 0]) = make_trg_mask (Tensor [2, 3] [1, 7, 4, 1, 5, 0])"
proof -
  let ?trg = "Tensor [2, 3] [1, 7, 4, 1, 5, 0 :: int]"
  let ?pad = "Tensor [2, 3] [0, 0, 0, 0, 0, 0 :: int]"
  have shp: "shape ?trg = [2, 3]" by simp
  from make_trg_mask_lower_triangular [of ?trg 2 3 ?pad]
  obtain m where m: "make_trg_mask ?trg = Inr m" "shape m = [2, 1, 3, 3]"
    and ent: "\<And>n q k. n < 2 \<Longrightarrow> q < 3 \<Longrightarrow> k < 3 \<Longrightarrow>
                elem_at m [n, 0, q, k] = (if k \<le> q then 1 else 0)"
    and same: "make_trg_mask ?pad = make_trg_mask ?trg"
    by auto
  have "elem_at m [1, 0, 1, 2] = 0" "elem_at m [1, 0, 2, 1] = 1" "elem_at m [0, 0, 2, 2] = 1"
    using ent [of 1 1 2] ent [of 1 2 1] ent [of 0 2 2] by simp_all
  with m same shp show ?thesis by simp
qed

section \<open>The scores and the query projection\<close>

lemma Linear_forward_unused:
  "and_then (Linear_forward (l\<lparr>weight := w\<rparr>) x) (\<lambda>y. c) = and_then (Linear_forward l x) (\<lambda>y. c)"
  by (simp add: Linear_forward_def)

lemma forward_weight_update:
  "forward (self\<lparr>queries_l := (queries_l self)\<lparr>weight := w\<rparr>\<rparr>) values' keys' query' mask' =
   forward self values' keys' query' mask'"
  by (simp add: forward_def heads_out_def split_and_project_def Let_def and_then_assoc
      and_then_if attention_of_def Linear_forward_unused)

lemma init_queries_update:
  "SelfAttention_init E H ps = Inr self \<Longrightarrow>
   SelfAttention_init E H (ps\<lparr>W_queries := w\<rparr>) =
     Inr (self\<lparr>queries_l := (queries_l self)\<lparr>weight := Tensor [nat (E div H), nat (E div H)] w\<rparr>\<rparr>)"
  by (auto simp: SelfAttention_init_def Linear_init_def Let_def split: if_splits)

lemma init_queries_error:
  "SelfAttention_init E H ps = Inl e \<Longrightarrow> SelfAttention_init E H (ps\<lparr>W_queries := w\<rparr>) = Inl e"
  by (auto simp: SelfAttention_init_def Linear_init_def Let_def split: if_splits)

text \<open>
  C4. The output of \<open>forward\<close> does not depend on the weights of the \<open>queries\<close> layer:
  replacing them in a module leaves every result (and every error) of \<open>forward\<close>
  unchanged, and so do two parameter settings that differ only in those weights, on the
  same inputs.
\<close>

theorem forward_independent_of_query_weights:
  "forward (self\<lparr>queries_l := (queries_l self)\<lparr>weight := w'\<rparr>\<rparr>) values' keys' query' mask' =
     forward self values' keys' query' mask' \<and>
   and_then (SelfAttention_init E H (ps\<lparr>W_queries := w\<rparr>))
     (\<lambda>self. forward self values' keys' query' mask') =
   and_then (SelfAttention_init E H ps) (\<lambda>self. forward self values' keys' query' mask')"
proof (cases "SelfAttention_init E H ps")
  case (Inl e)
  then show ?thesis by (simp add: init_queries_error forward_weight_update)
next
  case (Inr s)
  then show ?thesis by (simp add: init_queries_update forward_weight_update)
qed

text \<open>
  C1. The scores are to be the contraction of the projected query with the projected key.
  The source stores the projected query in \<open>query\<close> (line 40) and contracts the reshaped,
  unprojected \<open>queries\<close> (line 44). With identity weights for keys and values, query
  weights \<open>2 * identity\<close> and the vector \<open>(1, 0)\<close> as value, key and query (one batch, one
  position, one head), the source computes the score 1 where the projected query gives 2.
\<close>

theorem energy_uses_unprojected_query:
  "and_then (SelfAttention_init 2 1
       \<lparr>W_values = [1, 0, 0, 1], W_keys = [1, 0, 0, 1], W_queries = [2, 0, 0, 2],
        W_fc_out = [1, 0, 0, 1], b_fc_out = [0, 0]\<rparr>)
     (\<lambda>self. energy_of self (Tensor [1, 1, 2] [1, 0]) (Tensor [1, 1, 2] [1, 0])
        (Tensor [1, 1, 2] [1, 0])) = Inr (Tensor [1, 1, 1, 1] [1]) \<and>
   and_then (SelfAttention_init 2 1
       \<lparr>W_values = [1, 0, 0, 1], W_keys = [1, 0, 0, 1], W_queries = [2, 0, 0, 2],
        W_fc_out = [1, 0, 0, 1], b_fc_out = [0, 0]\<rparr>)
     (\<lambda>self. energy_spec self (Tensor [1, 1, 2] [1, 0]) (Tensor [1, 1, 2] [1, 0])
        (Tensor [1, 1, 2] [1, 0])) = Inr (Tensor [1, 1, 1, 1] [2])"
  by (simp add: SelfAttention_init_def Linear_init_def energy_of_def energy_spec_def
      split_and_project_def reshape_def Linear_forward_def einsum_nqhd_nkhd_nhqk_def bdim_def
      tabulate_def elem_bc_def bidx_def elem_at_def upt_conv_Cons)


section \<open>Masking, scaling and softmax\<close>





section \<open>The forward pass\<close>

lemma bdim_same [simp]: "bdim a a = Some a"
  by (simp add: bdim_def)

lemma init_facts:
  assumes "SelfAttention_init E H ps = Inr self"
  shows "embed_size self = E" "heads self = H" "head_dim self = E div H"
    "H \<noteq> 0" "E div H * H = E" "0 \<le> E div H" "0 \<le> E"
    "in_features (values_l self) = nat (E div H)" "out_features (values_l self) = nat (E div H)"
    "in_features (keys_l self) = nat (E div H)" "out_features (keys_l self) = nat (E div H)"
    "in_features (queries_l self) = nat (E div H)" "out_features (queries_l self) = nat (E div H)"
    "in_features (fc_out self) = nat E" "out_features (fc_out self) = nat E"
  using assms
  by (auto simp: SelfAttention_init_def Linear_init_def Let_def mult.commute split: if_splits)

lemma reshape_split:
  assumes "shape t = [N, L, nat E]" "0 < H" "0 \<le> D" "D * H = E"
  shows "reshape t [int N, int L, H, D] = Inr (Tensor [N, L, nat H, nat D] (elems t))"
proof -
  have e: "nat E = nat H * nat D"
    using assms by (metis mult.commute nat_mult_distrib order_less_imp_le)
  have n: "int N \<noteq> - 1" "int L \<noteq> - 1" "H \<noteq> - 1" "D \<noteq> - 1" "\<not> H < - 1" "\<not> D < - 1"
    using assms by simp_all
  show ?thesis
    using n by (simp add: reshape_def Let_def assms(1) e)
qed

lemma reshape_merge:
  assumes "shape t = [N, L, nat H, nat D]" "0 < H" "0 \<le> D" "D * H = E"
  shows "reshape t [int N, int L, H * D] = Inr (Tensor [N, L, nat E] (elems t))"
proof -
  have e: "nat E = nat H * nat D"
    using assms by (metis mult.commute nat_mult_distrib order_less_imp_le)
  have e': "H * D = E"
    using assms(4) by (simp only: mult.commute)
  have "0 \<le> E" using assms by (metis mult_nonneg_nonneg order_less_imp_le)
  then have n: "int N \<noteq> - 1" "int L \<noteq> - 1" "E \<noteq> - 1" "\<not> E < - 1"
    by simp_all
  show ?thesis
    using n by (simp add: reshape_def Let_def assms(1) e e')
qed

lemma Linear_forward_ok:
  assumes "shape x = shp @ [d]" "in_features l = d"
  shows "\<exists>y. Linear_forward l x = Inr y \<and> shape y = shp @ [out_features l] \<and> wf_tensor y"
  using assms by (simp add: Linear_forward_def)

lemma split_and_project_ok:
  assumes init: "SelfAttention_init E H ps = Inr self" and H: "0 < H"
    and V: "shape V = [N, VL, nat E]" and K: "shape K = [N, KL, nat E]"
    and Q: "shape Q = [N, QL, nat E]"
  shows "\<exists>vp kp qp. split_and_project self V K Q =
        Inr (vp, kp, Tensor [N, QL, nat H, nat (E div H)] (elems Q), qp) \<and>
      shape vp = [N, VL, nat H, nat (E div H)] \<and> wf_tensor vp \<and>
      shape kp = [N, KL, nat H, nat (E div H)] \<and> wf_tensor kp"
proof -
  note f = init_facts [OF init]
  let ?h = "nat H" and ?d = "nat (E div H)"
  have rv: "reshape V [int N, int VL, H, E div H] = Inr (Tensor [N, VL, ?h, ?d] (elems V))"
    using V H f(6) f(5) by (rule reshape_split)
  have rk: "reshape K [int N, int KL, H, E div H] = Inr (Tensor [N, KL, ?h, ?d] (elems K))"
    using K H f(6) f(5) by (rule reshape_split)
  have rq: "reshape Q [int N, int QL, H, E div H] = Inr (Tensor [N, QL, ?h, ?d] (elems Q))"
    using Q H f(6) f(5) by (rule reshape_split)
  obtain vp where vp: "Linear_forward (values_l self) (Tensor [N, VL, ?h, ?d] (elems V)) = Inr vp"
      "shape vp = [N, VL, ?h, ?d]" "wf_tensor vp"
    using Linear_forward_ok [of "Tensor [N, VL, ?h, ?d] (elems V)" "[N, VL, ?h]" ?d "values_l self"] f
    by auto
  obtain kp where kp: "Linear_forward (keys_l self) (Tensor [N, KL, ?h, ?d] (elems K)) = Inr kp"
      "shape kp = [N, KL, ?h, ?d]" "wf_tensor kp"
    using Linear_forward_ok [of "Tensor [N, KL, ?h, ?d] (elems K)" "[N, KL, ?h]" ?d "keys_l self"] f
    by auto
  obtain qp where qp: "Linear_forward (queries_l self) (Tensor [N, QL, ?h, ?d] (elems Q)) = Inr qp"
    using Linear_forward_ok [of "Tensor [N, QL, ?h, ?d] (elems Q)" "[N, QL, ?h]" ?d "queries_l self"] f
    by auto
  have "split_and_project self V K Q = Inr (vp, kp, Tensor [N, QL, ?h, ?d] (elems Q), qp)"
    by (simp add: split_and_project_def V K Q f(2) f(3) rv rk rq vp(1) kp(1) qp)
  then show ?thesis using vp kp by blast
qed

lemma einsum1_ok:
  assumes "shape a = [N, Q, h, d]" "shape b = [N, K, h, d]"
  shows "\<exists>e. einsum_nqhd_nkhd_nhqk a b = Inr e \<and> shape e = [N, h, Q, K] \<and> wf_tensor e"
  using assms by (simp add: einsum_nqhd_nkhd_nhqk_def)

lemma apply_mask_value:
  assumes "broadcastable_to (shape m) (shape e)"
  shows "apply_mask e (Some m) = Inr (tabulate (shape e)
     (\<lambda>idx. if elem_bc (eq_scalar m 0) idx then - 100000000000000000000 else elem_bc e idx))"
  using assms by (simp add: apply_mask_def masked_fill_def broadcast_shapes_to)

lemma apply_mask_ok:
  assumes "wf_tensor e" "mask' = None \<or> (\<exists>m. mask' = Some m \<and> broadcastable_to (shape m) (shape e))"
  shows "\<exists>e'. apply_mask e mask' = Inr e' \<and> shape e' = shape e \<and> wf_tensor e'"
  using assms by (auto simp: apply_mask_value) (simp add: apply_mask_def)


lemma attention_of_entries:
  assumes a: "wf_tensor energy" "shape energy = [N, H, Q, K]"
  shows "\<exists>a. attention_of self energy = Inr a \<and> shape a = [N, H, Q, K] \<and> wf_tensor a \<and>
        (\<forall>n<N. \<forall>h<H. \<forall>q<Q. \<forall>k<K.
           elem_at a [n, h, q, k] =
             exp (elem_at energy [n, h, q, k] / sqrt (real_of_int (embed_size self))) /
             (\<Sum>j<K. exp (elem_at energy [n, h, q, j] / sqrt (real_of_int (embed_size self)))))"
proof -
  let ?c = "sqrt (real_of_int (embed_size self))"
  let ?x = "div_scalar energy ?c"
  let ?a = "tabulate [N, H, Q, K] (\<lambda>idx.
        exp (elem_at ?x idx) / (\<Sum>j\<leftarrow>[0..<K]. exp (elem_at ?x (idx[3 := j]))))"
  have val: "attention_of self energy = Inr ?a"
    using a by (simp add: attention_of_def softmax_def)
  have ent: "elem_at ?a [n, h, q, k] =
      exp (elem_at energy [n, h, q, k] / ?c) / (\<Sum>j<K. exp (elem_at energy [n, h, q, j] / ?c))"
    if "n < N" "h < H" "q < Q" "k < K" for n h q k
  proof -
    have x: "elem_at ?x [n, h, q, j] = elem_at energy [n, h, q, j] / ?c" if "j < K" for j
      using a that \<open>n < N\<close> \<open>h < H\<close> \<open>q < Q\<close> by (simp add: elem_at_div_scalar)
    have "elem_at ?a [n, h, q, k] =
        exp (elem_at ?x [n, h, q, k]) / (\<Sum>j\<leftarrow>[0..<K]. exp (elem_at ?x [n, h, q, j]))"
      using that by (simp add: elem_at_tabulate eval_nat_numeral)
    also have "(\<Sum>j\<leftarrow>[0..<K]. exp (elem_at ?x [n, h, q, j])) = (\<Sum>j<K. exp (elem_at ?x [n, h, q, j]))"
      by (rule sum_list_upt)
    also have "\<dots> = (\<Sum>j<K. exp (elem_at energy [n, h, q, j] / ?c))"
      by (rule sum.cong) (simp_all add: x)
    finally show ?thesis using x [OF \<open>k < K\<close>] by simp
  qed
  show ?thesis using val ent by simp
qed

lemma einsum2_ok:
  assumes "shape a = [N, h, Q, K]" "shape v = [N, VL, h, d]" "K = VL \<or> K = 1 \<or> VL = 1"
  shows "\<exists>out. einsum_nhql_nlhd_nqhd a v = Inr out \<and> shape out = [N, Q, h, d] \<and> wf_tensor out"
  using assms by (auto simp: einsum_nhql_nlhd_nqhd_def bdim_def)

lemma einsum2_fail:
  assumes "shape a = [N, h, Q, K]" "shape v = [N, VL, h, d]" "K \<noteq> VL" "K \<noteq> 1" "VL \<noteq> 1"
  shows "einsum_nhql_nlhd_nqhd a v = Inl RuntimeError"
  using assms by (simp add: einsum_nhql_nlhd_nqhd_def bdim_def)





lemma forward_cases:
  assumes init: "SelfAttention_init E H ps = Inr self" and H: "0 < H"
    and V: "shape V = [N, VL, nat E]" and K: "shape K = [N, KL, nat E]"
    and Q: "shape Q = [N, QL, nat E]"
    and M: "mask' = None \<or> (\<exists>m. mask' = Some m \<and> broadcastable_to (shape m) [N, nat H, QL, KL])"
  shows "KL = VL \<or> KL = 1 \<or> VL = 1 \<Longrightarrow>
      \<exists>out. forward self V K Q mask' = Inr out \<and> shape out = [N, QL, nat E]"
    and "KL \<noteq> VL \<Longrightarrow> KL \<noteq> 1 \<Longrightarrow> VL \<noteq> 1 \<Longrightarrow> forward self V K Q mask' = Inl RuntimeError"
proof -
  note f = init_facts [OF init]
  let ?h = "nat H" and ?d = "nat (E div H)"
  let ?qs = "Tensor [N, QL, ?h, ?d] (elems Q)"
  obtain vp kp qp where sp: "split_and_project self V K Q = Inr (vp, kp, ?qs, qp)"
    and vp: "shape vp = [N, VL, ?h, ?d]" and kp: "shape kp = [N, KL, ?h, ?d]"
    using split_and_project_ok [OF init H V K Q] by blast
  obtain energy where en: "einsum_nqhd_nkhd_nhqk ?qs kp = Inr energy"
    and ens: "shape energy = [N, ?h, QL, KL]" and enw: "wf_tensor energy"
    using einsum1_ok [of ?qs N QL ?h ?d kp KL] kp by auto
  obtain e' where am: "apply_mask energy mask' = Inr e'"
    and es: "shape e' = [N, ?h, QL, KL]" and ew: "wf_tensor e'"
    using apply_mask_ok [OF enw, of mask'] M ens by auto
  obtain a where at: "attention_of self e' = Inr a" and as: "shape a = [N, ?h, QL, KL]"
    using attention_of_entries [OF ew es, of self] by blast
  {
    assume "KL = VL \<or> KL = 1 \<or> VL = 1"
    then obtain o4 where e2: "einsum_nhql_nlhd_nqhd a vp = Inr o4"
      and os: "shape o4 = [N, QL, ?h, ?d]"
      using einsum2_ok [OF as vp] by auto
    have rm: "reshape o4 [int N, int QL, H * (E div H)] = Inr (Tensor [N, QL, nat E] (elems o4))"
      using os H f(6) f(5) by (rule reshape_merge)
    have ho: "heads_out self V K Q mask' = Inr (Tensor [N, QL, nat E] (elems o4))"
      by (simp add: heads_out_def sp en am at e2 Q f(2) f(3) rm)
    obtain out where "Linear_forward (fc_out self) (Tensor [N, QL, nat E] (elems o4)) = Inr out"
      "shape out = [N, QL, nat E]"
      using Linear_forward_ok [of "Tensor [N, QL, nat E] (elems o4)" "[N, QL]" "nat E" "fc_out self"] f
      by auto
    then show "\<exists>out. forward self V K Q mask' = Inr out \<and> shape out = [N, QL, nat E]"
      by (simp add: forward_def ho)
  }
  {
    assume "KL \<noteq> VL" "KL \<noteq> 1" "VL \<noteq> 1"
    then have "einsum_nhql_nlhd_nqhd a vp = Inl RuntimeError"
      using einsum2_fail [OF as vp] by simp
    then show "forward self V K Q mask' = Inl RuntimeError"
      by (simp add: forward_def heads_out_def sp en am at)
  }
qed

text \<open>
  C10. For a module that its constructor returned (with a positive number of heads) and
  inputs \<open>values\<close> and \<open>keys\<close> of shape \<open>(N, key_len, E)\<close>, \<open>query\<close> of shape
  \<open>(N, query_len, E)\<close> and a mask that is absent or broadcasts to the scores' shape
  \<open>(N, heads, query_len, key_len)\<close>, \<open>forward\<close> returns a tensor, and its shape is
  \<open>(N, query_len, E)\<close>, the shape of \<open>query\<close>, whatever \<open>key_len\<close> is.
\<close>

theorem forward_output_shape:
  "SelfAttention_init E H ps = Inr self \<and> 0 < H \<and>
   shape V = [N, KL, nat E] \<and> shape K = [N, KL, nat E] \<and> shape Q = [N, QL, nat E] \<and>
   (mask' = None \<or> (\<exists>m. mask' = Some m \<and> broadcastable_to (shape m) [N, nat H, QL, KL])) \<longrightarrow>
   (\<exists>out. forward self V K Q mask' = Inr out \<and> shape out = [N, QL, nat E] \<and>
      shape out = shape Q)"
proof
  assume a: "SelfAttention_init E H ps = Inr self \<and> 0 < H \<and>
   shape V = [N, KL, nat E] \<and> shape K = [N, KL, nat E] \<and> shape Q = [N, QL, nat E] \<and>
   (mask' = None \<or> (\<exists>m. mask' = Some m \<and> broadcastable_to (shape m) [N, nat H, QL, KL]))"
  then have "\<exists>out. forward self V K Q mask' = Inr out \<and> shape out = [N, QL, nat E]"
    by (intro forward_cases(1) [of E H ps self V N KL K KL Q QL mask']) simp_all
  then show "\<exists>out. forward self V K Q mask' = Inr out \<and> shape out = [N, QL, nat E] \<and>
      shape out = shape Q"
    using a by auto
qed

theorem forward_output_shape_witness:
  "SelfAttention_init 4 2 identity_params = Inr identity_module \<and> (0::int) < 2 \<and>
   shape (Tensor [1, 3, 4] [1, 2, 3, 4, 5, 6, 7, 8, 9, 10, 11, 12 :: real]) = [1, 3, 4] \<and>
   shape (Tensor [1, 2, 4] [1, 0, 2, 0, 0, 3, 0, 4 :: real]) = [1, 2, 4] \<and>
   broadcastable_to (shape (Tensor [1, 1, 1, 3] [1, 1, 0 :: real])) [1, 2, 2, 3] \<and>
   (\<exists>out. forward identity_module
       (Tensor [1, 3, 4] [1, 2, 3, 4, 5, 6, 7, 8, 9, 10, 11, 12])
       (Tensor [1, 3, 4] [1, 2, 3, 4, 5, 6, 7, 8, 9, 10, 11, 12])
       (Tensor [1, 2, 4] [1, 0, 2, 0, 0, 3, 0, 4])
       (Some (Tensor [1, 1, 1, 3] [1, 1, 0])) = Inr out \<and> shape out = [1, 2, 4])"
  using forward_output_shape [of 4 2 identity_params identity_module
      "Tensor [1, 3, 4] [1, 2, 3, 4, 5, 6, 7, 8, 9, 10, 11, 12]" 1 3
      "Tensor [1, 3, 4] [1, 2, 3, 4, 5, 6, 7, 8, 9, 10, 11, 12]"
      "Tensor [1, 2, 4] [1, 0, 2, 0, 0, 3, 0, 4]" 2
      "Some (Tensor [1, 1, 1, 3] [1, 1, 0])"]
    init_identity_module
  by (simp add: broadcastable_to_def)

text \<open>
  C9. With \<open>values\<close> of shape \<open>(N, value_len, E)\<close> and \<open>keys\<close> of shape \<open>(N, key_len, E)\<close>,
  \<open>forward\<close> raises the runtime's shape error when \<open>value_len\<close> and \<open>key_len\<close> differ and
  neither is 1: the second \<^verbatim>\<open>einsum\<close> refuses the sizes under its label \<open>l\<close>, and no
  result is produced. When they are equal, or one of them is 1 (\<^verbatim>\<open>einsum\<close> broadcasts a
  size of 1), \<open>forward\<close> returns a tensor of shape \<open>(N, query_len, E)\<close>; \<open>query_len\<close> is
  not constrained by \<open>key_len\<close>.
\<close>

theorem forward_value_key_length:
  "SelfAttention_init E H ps = Inr self \<and> 0 < H \<and>
   shape V = [N, VL, nat E] \<and> shape K = [N, KL, nat E] \<and> shape Q = [N, QL, nat E] \<and>
   (mask' = None \<or> (\<exists>m. mask' = Some m \<and> broadcastable_to (shape m) [N, nat H, QL, KL])) \<longrightarrow>
   (VL \<noteq> KL \<and> VL \<noteq> 1 \<and> KL \<noteq> 1 \<longrightarrow> forward self V K Q mask' = Inl RuntimeError) \<and>
   (VL = KL \<or> VL = 1 \<or> KL = 1 \<longrightarrow>
      (\<exists>out. forward self V K Q mask' = Inr out \<and> shape out = [N, QL, nat E]))"
proof (intro impI conjI)
  assume a: "SelfAttention_init E H ps = Inr self \<and> 0 < H \<and>
   shape V = [N, VL, nat E] \<and> shape K = [N, KL, nat E] \<and> shape Q = [N, QL, nat E] \<and>
   (mask' = None \<or> (\<exists>m. mask' = Some m \<and> broadcastable_to (shape m) [N, nat H, QL, KL]))"
  {
    assume "VL \<noteq> KL \<and> VL \<noteq> 1 \<and> KL \<noteq> 1"
    with a show "forward self V K Q mask' = Inl RuntimeError"
      by (intro forward_cases(2) [of E H ps self V N VL K KL Q QL mask']) simp_all
  }
  {
    assume "VL = KL \<or> VL = 1 \<or> KL = 1"
    with a show "\<exists>out. forward self V K Q mask' = Inr out \<and> shape out = [N, QL, nat E]"
      by (intro forward_cases(1) [of E H ps self V N VL K KL Q QL mask']) auto
  }
qed

theorem forward_value_key_length_witness:
  "SelfAttention_init 4 2 identity_params = Inr identity_module \<and> (0::int) < 2 \<and>
   shape (Tensor [1, 3, 4] [1, 2, 3, 4, 5, 6, 7, 8, 9, 10, 11, 12 :: real]) = [1, 3, 4] \<and>
   shape (Tensor [1, 2, 4] [1, 0, 2, 0, 0, 3, 0, 4 :: real]) = [1, 2, 4] \<and>
   (3::nat) \<noteq> 2 \<and> (3::nat) \<noteq> 1 \<and> (2::nat) \<noteq> 1 \<and>
   forward identity_module
       (Tensor [1, 3, 4] [1, 2, 3, 4, 5, 6, 7, 8, 9, 10, 11, 12])
       (Tensor [1, 2, 4] [1, 0, 2, 0, 0, 3, 0, 4])
       (Tensor [1, 2, 4] [1, 0, 2, 0, 0, 3, 0, 4]) None = Inl RuntimeError \<and>
   (\<exists>out. forward identity_module
       (Tensor [1, 3, 4] [1, 2, 3, 4, 5, 6, 7, 8, 9, 10, 11, 12])
       (Tensor [1, 3, 4] [1, 2, 3, 4, 5, 6, 7, 8, 9, 10, 11, 12])
       (Tensor [1, 2, 4] [1, 0, 2, 0, 0, 3, 0, 4]) None = Inr out \<and> shape out = [1, 2, 4])"
  using forward_value_key_length [of 4 2 identity_params identity_module
      "Tensor [1, 3, 4] [1, 2, 3, 4, 5, 6, 7, 8, 9, 10, 11, 12]" 1 3
      "Tensor [1, 2, 4] [1, 0, 2, 0, 0, 3, 0, 4]" 2
      "Tensor [1, 2, 4] [1, 0, 2, 0, 0, 3, 0, 4]" 2 None]
    forward_value_key_length [of 4 2 identity_params identity_module
      "Tensor [1, 3, 4] [1, 2, 3, 4, 5, 6, 7, 8, 9, 10, 11, 12]" 1 3
      "Tensor [1, 3, 4] [1, 2, 3, 4, 5, 6, 7, 8, 9, 10, 11, 12]" 3
      "Tensor [1, 2, 4] [1, 0, 2, 0, 0, 3, 0, 4]" 2 None]
    init_identity_module
  by simp

text \<open>
  A call with \<open>value_len = 1\<close> and \<open>key_len = 2\<close> raises nothing: for \<^verbatim>\<open>SelfAttention(1, 1)\<close>
  with all weights 1 and bias 0, the single value 3, two keys 0 and one query 0, \<open>forward\<close>
  returns the tensor holding 3.
\<close>

theorem forward_broadcasts_single_value:
  "and_then (SelfAttention_init 1 1
       \<lparr>W_values = [1], W_keys = [1], W_queries = [1], W_fc_out = [1], b_fc_out = [0]\<rparr>)
     (\<lambda>self. forward self (Tensor [1, 1, 1] [3]) (Tensor [1, 2, 1] [0, 0])
        (Tensor [1, 1, 1] [0]) None) = Inr (Tensor [1, 1, 1] [3])"
  by (simp add: SelfAttention_init_def Linear_init_def forward_def heads_out_def
      split_and_project_def reshape_def Linear_forward_def einsum_nqhd_nkhd_nhqk_def
      einsum_nhql_nlhd_nqhd_def apply_mask_def attention_of_def softmax_def div_scalar_def
      bdim_def tabulate_def elem_bc_def bidx_def elem_at_def upt_conv_Cons)

section \<open>The sentinel is finite\<close>









section \<open>A row with a single visible key\<close>







end
